theory Spec2Isabelle
  imports Complex_Main "HOL-Library.Word"
begin

section \<open>mesh\_client: the binary channel format and the channel cache\<close>

subsection \<open>Bytes, strings and the memory behind a string\<close>

type_synonym byte = "8 word"
type_synonym ulong = "64 word"

text \<open>
  \<^verbatim>\<open>const char* body = string.c_str();\<close>
  The pointer \<open>body\<close> addresses the \<open>length s\<close> bytes of the string followed by the
  terminating NUL. C++ gives no meaning to a read beyond the terminator; the model makes
  such a read explicit: it yields whatever the adjacent memory \<open>beyond\<close> holds.
\<close>

definition c_str :: "byte list \<Rightarrow> (nat \<Rightarrow> byte) \<Rightarrow> nat \<Rightarrow> byte" where
  "c_str s beyond i =
     (if i < length s then s ! i
      else if i = length s then 0
      else beyond (i - Suc (length s)))"

text \<open>
  \<^verbatim>\<open>*reinterpret_cast<const unsigned long*>(body + off)\<close>
  reads the eight bytes at offsets \<open>off .. off + 7\<close>; \<open>unsigned long\<close> is 64 bits wide and
  stored least significant byte first (LP64, little endian).
\<close>

definition ulong_offsets :: "nat \<Rightarrow> nat list" where
  "ulong_offsets off = [off ..< off + 8]"

definition ulong_of_bytes :: "byte list \<Rightarrow> ulong" where
  "ulong_of_bytes bs = foldr (\<lambda>b acc. ucast b + 256 * acc) bs 0"

definition read_ulong :: "(nat \<Rightarrow> byte) \<Rightarrow> nat \<Rightarrow> ulong" where
  "read_ulong body off = ulong_of_bytes (map body (ulong_offsets off))"

subsection \<open>parseByteDataString\<close>

text \<open>
  The four reference parameters \<open>type\<close>, \<open>size\<close>, \<open>width\<close>, \<open>data\<close> of the source. The
  pointer \<open>data\<close> is kept as an offset from \<open>body\<close>.
\<close>

record header =
  h_type :: byte
  h_size :: ulong
  h_width :: ulong
  h_data :: nat

text \<open>
  \<^verbatim>\<open>
  bool parseByteDataString(const std::string& string, char& type, unsigned long& size,
                           unsigned long& width, char*& data)
  {
    if (string.length() < 10)
      return false;
    const char* body = string.c_str();
    type = body[0];                                             // one byte
    size = *reinterpret_cast<const unsigned long*>(body + 1);   // eight bytes
    width = *reinterpret_cast<const unsigned long*>(body + 9);  // eight bytes
    data = reinterpret_cast<char*>(const_cast<char*>(body + 17));
    return true;
  }
  \<close>
  The model takes the values the reference parameters hold at the call and returns the
  result together with the values they hold afterwards.
\<close>

definition parseByteDataString :: "byte list \<Rightarrow> (nat \<Rightarrow> byte) \<Rightarrow> header \<Rightarrow> bool \<times> header" where
  "parseByteDataString s beyond out =
     (if length s < 10 then (False, out)
      else
        let body = c_str s beyond
        in (True, \<lparr>h_type = body 0, h_size = read_ulong body 1,
                   h_width = read_ulong body 9, h_data = 17\<rparr>))"

text \<open>The offsets from \<open>body\<close> that a call returning true dereferences.\<close>

definition decoded_offsets :: "nat list" where
  "decoded_offsets = 0 # ulong_offsets 1 @ ulong_offsets 9"

subsection \<open>Channels and the client\<close>

text \<open>
  An \<open>lvr2::Channel<T>\<close>: element count, width, and the raw bytes of its buffer (the source
  fills the buffer with \<open>memcpy\<close>, so bytes are all that matters here).
\<close>

record channel =
  numElements :: ulong
  width :: ulong
  dataPtr :: "byte list"

text \<open>The exceptions that leave the client's functions: errors are the left summand.\<close>

datatype cpp_error = bad_array_new_length | bad_alloc

text \<open>
  The members of \<open>MeshClient\<close> that the channel functions use, and a log of the calls of
  \<open>requestChannel\<close> (each one is an HTTP request).
\<close>

record client =
  float_channels :: "string \<rightharpoonup> channel"
  index_channels :: "string \<rightharpoonup> channel"
  uchar_channels :: "string \<rightharpoonup> channel"
  requests :: "string list"

text \<open>
  What the functions depend on and the file does not define: the server's answer to a
  request (\<open>None\<close> for the null pointer \<open>requestChannel\<close> returns on failure), the memory
  behind a response string, the indeterminate values of the uninitialised locals
  \<open>type\<close>, \<open>size\<close>, \<open>width\<close>, \<open>data\<close>, the constants \<open>Type::FLOAT\<close> and \<open>Type::UINT\<close> of
  \<open>mesh_client.h\<close>, \<open>sizeof(lvr2::Index)\<close>, and what \<open>operator new[]\<close> does with a
  request of so many bytes (\<open>None\<close> when it returns memory, else the exception it throws).
\<close>

record env =
  server :: "string \<Rightarrow> byte list option"
  beyond :: "nat \<Rightarrow> byte"
  uninit :: header
  FLOAT :: byte
  UINT :: byte
  sizeof_Index :: ulong
  operator_new :: "nat \<Rightarrow> cpp_error option"

text \<open>
  \<^verbatim>\<open>
  channel = lvr2::Channel<T>(size, width);
  memcpy(channel.dataPtr().get(), data, size * width * sizeof(T));
  \<close>
  The constructor allocates \<open>new T[size * width]\<close>, the element count computed in
  \<open>size_t\<close> (it wraps). The allocation throws \<open>std::bad_array_new_length\<close> when the byte
  size of the array does not fit \<open>size_t\<close>, and otherwise whatever \<open>operator new[]\<close> throws
  for that size; nothing in the client catches it. When the allocation succeeds the byte
  count of \<open>memcpy\<close>, also computed in \<open>unsigned long\<close>, is that byte size.
\<close>

definition load_channel :: "env \<Rightarrow> ulong \<Rightarrow> (nat \<Rightarrow> byte) \<Rightarrow> header \<Rightarrow> cpp_error + channel" where
  "load_channel e elem_size body h =
     (let bytes = unat (h_size h * h_width h) * unat elem_size
      in if 2 ^ 64 \<le> bytes then Inl bad_array_new_length
         else
           case operator_new e bytes of
             Some err \<Rightarrow> Inl err
           | None \<Rightarrow>
               Inr \<lparr>numElements = h_size h, width = h_width h,
                    dataPtr = map body [h_data h ..<
                                h_data h + unat (h_size h * h_width h * elem_size)]\<rparr>)"

definition requestChannel :: "env \<Rightarrow> client \<Rightarrow> string \<Rightarrow> byte list option \<times> client" where
  "requestChannel e st name = (server e name, st\<lparr>requests := requests st @ [name]\<rparr>)"

definition getVertices :: "env \<Rightarrow> client \<Rightarrow> (cpp_error + channel option) \<times> client" where
  "getVertices e st =
     (case float_channels st ''vertices'' of
        Some c \<Rightarrow> (Inr (Some c), st)
      | None \<Rightarrow>
          let (str, st') = requestChannel e st ''vertices''
          in (case str of
                None \<Rightarrow> (Inr None, st')
              | Some s \<Rightarrow>
                  if length s > 17 then
                    let (parsed, loc) = parseByteDataString s (beyond e) (uninit e);
                        ok = (parsed \<and> h_type loc = FLOAT e)
                    in if ok then
                         (case load_channel e 4 (c_str s (beyond e)) loc of
                            Inl err \<Rightarrow> (Inl err, st')
                          | Inr c \<Rightarrow> (Inr (Some c), st'))
                       else (Inr None, st')
                  else (Inr None, st')))"

definition getIndices :: "env \<Rightarrow> client \<Rightarrow> (cpp_error + channel option) \<times> client" where
  "getIndices e st =
     (case index_channels st ''face_indices'' of
        Some c \<Rightarrow> (Inr (Some c), st)
      | None \<Rightarrow>
          let (str, st') = requestChannel e st ''face_indices''
          in (case str of
                None \<Rightarrow> (Inr None, st')
              | Some s \<Rightarrow>
                  if length s > 17 then
                    let (parsed, loc) = parseByteDataString s (beyond e) (uninit e);
                        ok = (parsed \<and> h_type loc = UINT e)
                    in if ok then
                         (case load_channel e (sizeof_Index e) (c_str s (beyond e)) loc of
                            Inl err \<Rightarrow> (Inl err, st')
                          | Inr c \<Rightarrow> (Inr (Some c), st'))
                       else (Inr None, st')
                  else (Inr None, st')))"

definition addVertices :: "client \<Rightarrow> channel \<Rightarrow> bool \<times> client" where
  "addVertices st c = (True, st\<lparr>float_channels := (float_channels st)(''vertices'' \<mapsto> c)\<rparr>)"

definition addIndices :: "client \<Rightarrow> channel \<Rightarrow> bool \<times> client" where
  "addIndices st c = (True, st\<lparr>index_channels := (index_channels st)(''face_indices'' \<mapsto> c)\<rparr>)"

text \<open>
  The three overloads of \<open>getChannel\<close>. The reference parameter \<open>channel\<close> is passed in and
  returned: the result is (return value or exception, \<open>channel\<close> afterwards, client
  afterwards). The constructor runs before the assignment to \<open>channel\<close>, so an exception
  leaves \<open>channel\<close> as it was.
\<close>

definition getChannel_float ::
  "env \<Rightarrow> client \<Rightarrow> string \<Rightarrow> string \<Rightarrow> channel option \<Rightarrow>
   (cpp_error + bool) \<times> channel option \<times> client" where
  "getChannel_float e st grp name ch =
     (case float_channels st name of
        Some c \<Rightarrow> (Inr True, Some c, st)
      | None \<Rightarrow>
          let (str, st') = requestChannel e st name
          in (case str of
                None \<Rightarrow> (Inr False, ch, st')
              | Some s \<Rightarrow>
                  if length s > 17 then
                    let (parsed, loc) = parseByteDataString s (beyond e) (uninit e)
                    in if parsed \<and> h_type loc = FLOAT e then
                         (case load_channel e 4 (c_str s (beyond e)) loc of
                            Inl err \<Rightarrow> (Inl err, ch, st')
                          | Inr c \<Rightarrow> (Inr True, Some c, st'))
                       else (Inr False, ch, st')
                  else (Inr False, ch, st')))"

text \<open>
  \<^verbatim>\<open>if (!parseByteDataString(*str, type, size, width, data) && type == Type::UINT)\<close>
\<close>

definition getChannel_index ::
  "env \<Rightarrow> client \<Rightarrow> string \<Rightarrow> string \<Rightarrow> channel option \<Rightarrow>
   (cpp_error + bool) \<times> channel option \<times> client" where
  "getChannel_index e st grp name ch =
     (case index_channels st name of
        Some c \<Rightarrow> (Inr True, Some c, st)
      | None \<Rightarrow>
          let (str, st') = requestChannel e st name
          in (case str of
                None \<Rightarrow> (Inr False, ch, st')
              | Some s \<Rightarrow>
                  if length s > 17 then
                    let (parsed, loc) = parseByteDataString s (beyond e) (uninit e)
                    in if \<not> parsed \<and> h_type loc = UINT e then
                         (case load_channel e (sizeof_Index e) (c_str s (beyond e)) loc of
                            Inl err \<Rightarrow> (Inl err, ch, st')
                          | Inr c \<Rightarrow> (Inr True, Some c, st'))
                       else (Inr False, ch, st')
                  else (Inr False, ch, st')))"

text \<open>
  The \<open>UCharChannelOptional\<close> overload never calls the parser: it builds the channel from
  the uninitialised locals.
\<close>

definition getChannel_uchar ::
  "env \<Rightarrow> client \<Rightarrow> string \<Rightarrow> string \<Rightarrow> channel option \<Rightarrow>
   (cpp_error + bool) \<times> channel option \<times> client" where
  "getChannel_uchar e st grp name ch =
     (case uchar_channels st name of
        Some c \<Rightarrow> (Inr True, Some c, st)
      | None \<Rightarrow>
          let (str, st') = requestChannel e st name
          in (case str of
                None \<Rightarrow> (Inr False, ch, st')
              | Some s \<Rightarrow>
                  if length s > 17 then
                    (case load_channel e 1 (c_str s (beyond e)) (uninit e) of
                       Inl err \<Rightarrow> (Inl err, ch, st')
                     | Inr c \<Rightarrow> (Inr True, Some c, st'))
                  else (Inr False, ch, st')))"

definition addChannel_float :: "client \<Rightarrow> string \<Rightarrow> string \<Rightarrow> channel \<Rightarrow> bool \<times> client" where
  "addChannel_float st grp name c =
     (True, st\<lparr>float_channels := (float_channels st)(name \<mapsto> c)\<rparr>)"

definition addChannel_index :: "client \<Rightarrow> string \<Rightarrow> string \<Rightarrow> channel \<Rightarrow> bool \<times> client" where
  "addChannel_index st grp name c =
     (True, st\<lparr>index_channels := (index_channels st)(name \<mapsto> c)\<rparr>)"

definition addChannel_uchar :: "client \<Rightarrow> string \<Rightarrow> string \<Rightarrow> channel \<Rightarrow> bool \<times> client" where
  "addChannel_uchar st grp name c =
     (True, st\<lparr>uchar_channels := (uchar_channels st)(name \<mapsto> c)\<rparr>)"

text \<open>A client that has cached nothing and requested nothing.\<close>

definition fresh_client :: client where
  "fresh_client = \<lparr>float_channels = Map.empty, index_channels = Map.empty,
                    uchar_channels = Map.empty, requests = []\<rparr>"

text \<open>
  A well-formed response carrying one element of four bytes: the type byte \<open>u\<close>, size 1,
  width 1, and four payload bytes.
\<close>

definition uint_response :: "byte \<Rightarrow> byte list" where
  "uint_response u = u # [1,0,0,0,0,0,0,0] @ [1,0,0,0,0,0,0,0] @ [42,0,0,0]"

text \<open>
  Two servers for a client whose \<open>Type::UINT\<close> is 0 and \<open>Type::FLOAT\<close> is 1: one answers
  every request with a well-formed response of type byte 1, the other with three bytes.
  And a channel of one index.
\<close>

definition float_server :: env where
  "float_server =
     \<lparr>server = (\<lambda>_. Some (uint_response 1)), beyond = (\<lambda>_. 0),
      uninit = \<lparr>h_type = 0, h_size = 0, h_width = 0, h_data = 0\<rparr>,
      FLOAT = 1, UINT = 0, sizeof_Index = 4, operator_new = (\<lambda>_. None)\<rparr>"

definition short_server :: env where
  "short_server =
     \<lparr>server = (\<lambda>_. Some [1, 2, 3]), beyond = (\<lambda>_. 0),
      uninit = \<lparr>h_type = 0, h_size = 0, h_width = 0, h_data = 0\<rparr>,
      FLOAT = 1, UINT = 0, sizeof_Index = 4, operator_new = (\<lambda>_. None)\<rparr>"

definition one_index :: channel where
  "one_index = \<lparr>numElements = 1, width = 1, dataPtr = [7, 0, 0, 0]\<rparr>"

section \<open>cvp\_mesh\_planner: the planning core\<close>

text \<open>
  Of \<open>CVPMeshPlanner\<close> the sources hold the class declaration only
  (\<open>cvp_mesh_planner.h\<close>): \<open>makePlan\<close>, \<open>cancel\<close>, \<open>waveFrontPropagation\<close>, the three update
  rules \<open>waveFrontUpdate\<close>, \<open>waveFrontUpdateWithS\<close>, \<open>waveFrontUpdateFMM\<close>,
  \<open>computeVectorMap\<close> and \<open>reconfigureCallback\<close> have no body there. The definitions of
  this section are therefore written from the specification; each says which sentences
  it follows. Scalars are real numbers.
\<close>

type_synonym vertex = nat
type_synonym face = nat
type_synonym vec = "real \<times> real \<times> real"

text \<open>
  Modelled from the spec: the outcomes of a request, whose producer \<open>makePlan\<close> has no
  body in the sources. "Outcomes: success; unreachable; cancelled", the taxonomy
  "InvalidInput, Unreachable, Cancelled, Divergence", and the integrator's failure "the
  crossed edge has no neighboring face (off-mesh)".
\<close>

datatype outcome = Success | Unreachable | Cancelled | InvalidInput | Divergence | OffMesh

text \<open>
  Modelled from the spec: the mesh and cost model, an external collaborator that the
  absent bodies query. "vertexCount(), faceCount(); verticesOfFace(face);
  facesOfVertex(vertex); neighborFaceAcrossEdge(face, edge); position(vertex);
  edgeWeight(edge); vertexCost(vertex); locate(point)". \<open>locate\<close> yields \<open>None\<close> for a
  point that cannot be located.
\<close>

record mesh_model =
  vertexCount :: nat
  faceCount :: nat
  verticesOfFace :: "face \<Rightarrow> vertex \<times> vertex \<times> vertex"
  facesOfVertex :: "vertex \<Rightarrow> face list"
  neighborFaceAcrossEdge :: "face \<Rightarrow> vertex \<times> vertex \<Rightarrow> face option"
  position :: "vertex \<Rightarrow> vec"
  edgeWeight :: "vertex \<times> vertex \<Rightarrow> real"
  vertexCost :: "vertex \<Rightarrow> real"
  locate :: "vec \<Rightarrow> face option"

text \<open>
  Modelled from the spec: the per-vertex maps, the members \<open>potential_\<close>,
  \<open>predecessors_\<close>, \<open>cutting_faces_\<close>, \<open>direction_\<close> and \<open>vector_map_\<close> of the header, which
  only absent code writes. "Vertex: potential (float, infinite until improved),
  predecessor vertex (optional), cutting face (optional), direction angle, derived
  direction vector". An infinite potential is \<open>None\<close>.
\<close>

record field_maps =
  potential :: "vertex \<Rightarrow> real option"
  predecessor :: "vertex \<Rightarrow> vertex option"
  cuttingFace :: "vertex \<Rightarrow> face option"
  angle :: "vertex \<Rightarrow> real"
  vectorField :: "vertex \<Rightarrow> vec"

text \<open>
  Modelled from the spec: the tunables of one request, the members \<open>cost_limit\<close>,
  \<open>step_width\<close> and \<open>goal_dist_offset\<close> of \<open>config_\<close>. "Per-request tunables (cost limit,
  step width, goal offset)".
\<close>

record config =
  costLimit :: real
  stepWidth :: real
  goalOffset :: real

text \<open>
  Modelled from the spec: the numeric and geometric steps that the specification names
  without giving a formula, taken as parameters. \<open>relax\<close> is the selected relaxation rule
  with the contract "(distances, weights, v1, v2, v3) -> improved?" (it also gets the
  cost limit and the face); \<open>distance\<close> is the planar distance; \<open>nearestVertex\<close> finds "the
  vertex nearest" a point; \<open>rotated\<close> is the predecessor edge "projected into the cutting
  face's plane and rotated about that face's normal by the stored angle"; \<open>interpolate\<close>,
  \<open>advance\<close> and \<open>crossedEdge\<close> are the integrator's "interpolate a local direction",
  "advance by stepWidth along that direction" and "edge-crossing/point-in-triangle test";
  \<open>potentialAt\<close> is the potential at a point of a face; \<open>segmentCost\<close> is one summand of the
  "accumulated potential-weighted path length"; \<open>goalThreshold\<close> is the "small threshold"
  and \<open>stepBudget\<close> the "step/iteration budget".
\<close>

record numerics =
  relax :: "mesh_model \<Rightarrow> real \<Rightarrow> field_maps \<Rightarrow> face \<Rightarrow> vertex \<Rightarrow> vertex \<Rightarrow> vertex \<Rightarrow> field_maps \<times> bool"
  distance :: "vec \<Rightarrow> vec \<Rightarrow> real"
  nearestVertex :: "mesh_model \<Rightarrow> vec \<Rightarrow> vertex"
  rotated :: "mesh_model \<Rightarrow> field_maps \<Rightarrow> vertex \<Rightarrow> vertex \<Rightarrow> vec"
  interpolate :: "mesh_model \<Rightarrow> field_maps \<Rightarrow> face \<Rightarrow> vec \<Rightarrow> vec"
  advance :: "vec \<Rightarrow> vec \<Rightarrow> real \<Rightarrow> vec"
  crossedEdge :: "mesh_model \<Rightarrow> face \<Rightarrow> vec \<Rightarrow> (vertex \<times> vertex) option"
  potentialAt :: "mesh_model \<Rightarrow> field_maps \<Rightarrow> face \<Rightarrow> vec \<Rightarrow> real"
  segmentCost :: "mesh_model \<Rightarrow> field_maps \<Rightarrow> vec \<Rightarrow> vec \<Rightarrow> real"
  goalThreshold :: real
  stepBudget :: nat

subsection \<open>WavefrontSolver\<close>

text \<open>
  Modelled from the spec: the state of the propagation loop of \<open>waveFrontPropagation\<close>,
  whose body is absent. The maps, the "Frontier: priority structure of (vertex, tentative
  potential) ordered ascending", and which vertices are settled.
\<close>

record solver_state =
  maps :: field_maps
  frontier :: "(vertex \<times> real) list"
  settled :: "vertex \<Rightarrow> bool"

text \<open>
  Modelled from the spec: insertion into the frontier of the absent
  \<open>waveFrontPropagation\<close>. The list is kept "ordered ascending" by tentative potential;
  "ties in tentative potential are broken by a fixed, reproducible rule (e.g., lower
  vertex index)". An improved vertex is inserted again and its older entry stays ("lazy
  decrease-key").
\<close>

fun push :: "vertex \<times> real \<Rightarrow> (vertex \<times> real) list \<Rightarrow> (vertex \<times> real) list" where
  "push e [] = [e]"
| "push e (x # xs) =
     (if snd e < snd x \<or> (snd e = snd x \<and> fst e \<le> fst x) then e # x # xs
      else x # push e xs)"

text \<open>
  Modelled from the spec: the triangles relaxed around a vertex \<open>v\<close> that has just been
  settled, in the absent \<open>waveFrontPropagation\<close>. "For a candidate vertex v3 adjacent to
  two vertices v1, v2 that share a triangle with it": every face of \<open>v\<close> gives two
  candidates, each of its other two vertices as \<open>v3\<close>, with \<open>v1 = v\<close>.
\<close>

definition candidates :: "mesh_model \<Rightarrow> vertex \<Rightarrow> (face \<times> vertex \<times> vertex \<times> vertex) list" where
  "candidates M v =
     concat (map (\<lambda>f. case verticesOfFace M f of (a, b, c) \<Rightarrow>
                    if v = a then [(f, a, b, c), (f, a, c, b)]
                    else if v = b then [(f, b, c, a), (f, b, a, c)]
                    else if v = c then [(f, c, a, b), (f, c, b, a)]
                    else [])
                 (facesOfVertex M v))"

text \<open>
  Modelled from the spec: the relaxation sweep of the absent \<open>waveFrontPropagation\<close>. A
  settled \<open>v3\<close> is skipped ("once a vertex is settled its potential is immutable"); otherwise
  the selected rule runs, and an improved \<open>v3\<close> enters the frontier with its new
  potential.
\<close>

fun relax_all ::
  "numerics \<Rightarrow> mesh_model \<Rightarrow> real \<Rightarrow> (face \<times> vertex \<times> vertex \<times> vertex) list \<Rightarrow>
   solver_state \<Rightarrow> solver_state" where
  "relax_all N M limit [] st = st"
| "relax_all N M limit ((f, v1, v2, v3) # cs) st =
     (if settled st v3 then relax_all N M limit cs st
      else
        case relax N M limit (maps st) f v1 v2 v3 of (fl, improved) \<Rightarrow>
          relax_all N M limit cs
            (case (improved, potential fl v3) of
               (True, Some t) \<Rightarrow> st\<lparr>maps := fl, frontier := push (v3, t) (frontier st)\<rparr>
             | _ \<Rightarrow> st\<lparr>maps := fl\<rparr>))"

text \<open>
  Modelled from the spec: one frontier pop of the absent \<open>waveFrontPropagation\<close>, once
  the cancellation check has passed. The least entry is removed; "stale entries [are]
  discarded on pop" (the vertex is settled already); otherwise the vertex is settled, the
  loop ends with success when "the vertex nearest the designated stop point is settled
  with potential >= distance(stop, goal) + goalOffset" (\<open>sv\<close> and \<open>bound\<close>), and else its
  triangles are relaxed. A vertex that is not one of the mesh is the "structurally
  malformed mesh" that "may abort computation outright rather than produce a typed
  result": \<open>Abort\<close>.
\<close>

datatype iteration = Continue solver_state | Finish outcome solver_state | Abort

definition solver_iter ::
  "numerics \<Rightarrow> mesh_model \<Rightarrow> real \<Rightarrow> vertex \<Rightarrow> real \<Rightarrow> solver_state \<Rightarrow> iteration" where
  "solver_iter N M limit sv bound st =
     (case frontier st of
        [] \<Rightarrow> Continue st
      | (v, t) # rest \<Rightarrow>
          if settled st v then Continue (st\<lparr>frontier := rest\<rparr>)
          else if vertexCount M \<le> v then Abort
          else
            let st1 = st\<lparr>frontier := rest, settled := (settled st)(v := True)\<rparr>
            in if v = sv \<and> bound \<le> t then Finish Success st1
               else Continue (relax_all N M limit (candidates M v) st1))"

text \<open>The number of vertices of the mesh that are not settled yet bounds the loop.\<close>

definition unsettled :: "mesh_model \<Rightarrow> solver_state \<Rightarrow> nat" where
  "unsettled M st = length (filter (\<lambda>v. \<not> settled st v) [0 ..< vertexCount M])"

lemma settled_relax_all [simp]: "settled (relax_all N M limit cs st) = settled st"
  by (induction N M limit cs st rule: relax_all.induct)
     (auto split: prod.splits bool.splits option.splits)

lemma unsettled_settle:
  assumes "v < vertexCount M" "\<not> settled st v" "settled st' = (settled st)(v := True)"
  shows "unsettled M st' < unsettled M st"
proof -
  let ?xs = "filter (\<lambda>u. \<not> settled st u) [0 ..< vertexCount M]"
  have "filter (\<lambda>u. \<not> settled st' u) [0 ..< vertexCount M] = filter (\<lambda>u. u \<noteq> v) ?xs"
    using assms(3) by (auto intro: filter_cong)
  moreover have "v \<in> set ?xs" using assms(1,2) by simp
  then have "length (filter (\<lambda>u. u \<noteq> v) ?xs) < length ?xs"
    by (rule length_filter_less) simp
  ultimately show ?thesis by (simp add: unsettled_def)
qed

lemma solver_iter_decreases:
  assumes "frontier st \<noteq> []" "solver_iter N M limit sv bound st = Continue st'"
  shows "unsettled M st' < unsettled M st
         \<or> (unsettled M st' = unsettled M st \<and> length (frontier st') < length (frontier st))"
proof (cases "frontier st")
  case Nil
  with assms(1) show ?thesis by simp
next
  case (Cons e rest)
  obtain v t where e: "e = (v, t)" by (cases e)
  show ?thesis
  proof (cases "settled st v")
    case True
    with assms(2) Cons e have "st' = st\<lparr>frontier := rest\<rparr>"
      by (simp add: solver_iter_def)
    then have "unsettled M st' = unsettled M st" and "frontier st' = rest"
      by (simp_all add: unsettled_def)
    with Cons show ?thesis by simp
  next
    case False
    with assms(2) Cons e have v: "v < vertexCount M"
      and st': "st' = relax_all N M limit (candidates M v)
                        (st\<lparr>frontier := rest, settled := (settled st)(v := True)\<rparr>)"
      by (auto simp: solver_iter_def Let_def split: if_splits)
    from st' have "settled st' = (settled st)(v := True)" by simp
    with v False have "unsettled M st' < unsettled M st" by (rule unsettled_settle)
    then show ?thesis ..
  qed
qed

text \<open>
  Modelled from the spec: the propagation loop of the absent \<open>waveFrontPropagation\<close>.
  "Termination: the frontier empties, or the vertex nearest the designated stop point
  is settled [...], or the cancellation token is observed set - checked once per
  frontier pop." The token is "a single externally-settable boolean, read once per outer
  loop iteration"; \<open>tok i\<close> is the value the \<open>i\<close>-th read of the request sees, and the
  loop returns the number of reads made so far. "Once observed true, [the loop returns]
  the cancelled outcome immediately with no further map mutation." With the frontier
  empty the outcome is success when the stop vertex is settled and else "unreachable
  (frontier exhausted before the stop region settles)". The result is \<open>None\<close> when the
  computation aborts on a malformed mesh.
\<close>

function propagate_loop ::
  "numerics \<Rightarrow> mesh_model \<Rightarrow> real \<Rightarrow> vertex \<Rightarrow> real \<Rightarrow> (nat \<Rightarrow> bool) \<Rightarrow> nat \<Rightarrow> solver_state \<Rightarrow>
   (outcome \<times> nat \<times> solver_state) option" where
  "propagate_loop N M limit sv bound tok i st =
     (if frontier st = [] then Some (if settled st sv then Success else Unreachable, i, st)
      else if tok i then Some (Cancelled, Suc i, st)
      else
        case solver_iter N M limit sv bound st of
          Continue st' \<Rightarrow> propagate_loop N M limit sv bound tok (Suc i) st'
        | Finish oc st' \<Rightarrow> Some (oc, Suc i, st')
        | Abort \<Rightarrow> None)"
  by pat_completeness auto
termination
proof (relation "measures [\<lambda>(N, M, limit, sv, bound, tok, i, st). unsettled M st,
                           \<lambda>(N, M, limit, sv, bound, tok, i, st). length (frontier st)]")
  show "wf (measures [\<lambda>(N, M, limit, sv, bound, tok, i, st). unsettled M st,
                      \<lambda>(N, M, limit, sv, bound, tok, i, st). length (frontier st)])"
    by simp
next
  fix N M limit sv bound tok and i :: nat and st st'
  assume "frontier st \<noteq> []" "\<not> tok i" "solver_iter N M limit sv bound st = Continue st'"
  then show "((N, M, limit, sv, bound, tok, Suc i, st'), (N, M, limit, sv, bound, tok, i, st))
        \<in> measures [\<lambda>(N, M, limit, sv, bound, tok, i, st). unsettled M st,
                     \<lambda>(N, M, limit, sv, bound, tok, i, st). length (frontier st)]"
    using solver_iter_decreases[of st N M limit sv bound st'] by auto
qed

declare propagate_loop.simps [simp del]

text \<open>
  Modelled from the spec: the maps at the start of a request, which the absent
  \<open>waveFrontPropagation\<close> would set up. "All maps are allocated per planning request
  [...] and discarded/reset at the next request"; a potential is "infinite until
  improved".
\<close>

definition blank_maps :: field_maps where
  "blank_maps = \<lparr>potential = (\<lambda>_. None), predecessor = (\<lambda>_. None),
                  cuttingFace = (\<lambda>_. None), angle = (\<lambda>_. 0), vectorField = (\<lambda>_. (0, 0, 0))\<rparr>"

text \<open>
  Modelled from the spec: the seeding of the absent \<open>waveFrontPropagation\<close>. "The goal
  vertex and its immediate neighbors are seeded with potential equal to the planar
  distance from the exact (possibly sub-triangle) goal point."
\<close>

definition seedVertices :: "mesh_model \<Rightarrow> vertex \<Rightarrow> vertex list" where
  "seedVertices M gv =
     remdups (gv # concat (map (\<lambda>f. case verticesOfFace M f of (a, b, c) \<Rightarrow> [a, b, c])
                             (facesOfVertex M gv)))"

definition seed_vertex :: "numerics \<Rightarrow> mesh_model \<Rightarrow> vec \<Rightarrow> vertex \<Rightarrow> solver_state \<Rightarrow> solver_state" where
  "seed_vertex N M goal v st =
     (let d = distance N goal (position M v)
      in st\<lparr>maps := (maps st)\<lparr>potential := (potential (maps st))(v := Some d)\<rparr>,
            frontier := push (v, d) (frontier st)\<rparr>)"

definition seeded :: "numerics \<Rightarrow> mesh_model \<Rightarrow> vec \<Rightarrow> vertex list \<Rightarrow> solver_state" where
  "seeded N M goal seeds =
     fold (seed_vertex N M goal) seeds
       \<lparr>maps = blank_maps, frontier = [], settled = (\<lambda>_. False)\<rparr>"

text \<open>
  Modelled from the spec: \<open>waveFrontPropagation\<close>, declared in the header without a
  body. "propagate(seedVertices, goalPoint, costLimit, stopPoint, goalOffset,
  cancelToken) -> (potential, predecessor, cuttingFace, angle, outcome)".
\<close>

definition propagate ::
  "numerics \<Rightarrow> mesh_model \<Rightarrow> vertex list \<Rightarrow> vec \<Rightarrow> real \<Rightarrow> vec \<Rightarrow> real \<Rightarrow> (nat \<Rightarrow> bool) \<Rightarrow>
   (outcome \<times> nat \<times> solver_state) option" where
  "propagate N M seeds goal limit stop offset tok =
     propagate_loop N M limit (nearestVertex N M stop) (distance N stop goal + offset) tok 0
       (seeded N M goal seeds)"

subsection \<open>VectorFieldBuilder\<close>

text \<open>
  Modelled from the spec: \<open>computeVectorMap\<close>, declared in the header without a body.
  "For each settled vertex, the predecessor-edge direction is projected into the cutting
  face's plane and rotated [...]. Seed vertices (no predecessor) produce an
  undefined/zero vector."
\<close>

definition build :: "numerics \<Rightarrow> mesh_model \<Rightarrow> solver_state \<Rightarrow> field_maps" where
  "build N M st =
     (maps st)\<lparr>vectorField :=
        (\<lambda>v. if v < vertexCount M \<and> settled st v then
                (case predecessor (maps st) v of
                   None \<Rightarrow> (0, 0, 0)
                 | Some p \<Rightarrow> rotated N M (maps st) v p)
              else vectorField (maps st) v)\<rparr>"

subsection \<open>PathIntegrator\<close>

text \<open>
  Modelled from the spec: the state of the path tracer inside the absent \<open>makePlan\<close>.
  "Path: ordered sequence of (point, containing face) pairs plus cumulative cost."
\<close>

record tracer_state =
  point :: vec
  inFace :: face
  path :: "(vec \<times> face) list"
  cost :: real

datatype tracing = Walking tracer_state | Stopped outcome tracer_state

definition visit ::
  "numerics \<Rightarrow> mesh_model \<Rightarrow> field_maps \<Rightarrow> vec \<Rightarrow> face \<Rightarrow> tracer_state \<Rightarrow> tracer_state" where
  "visit N M F p f ts =
     \<lparr>point = p, inFace = f, path = path ts @ [(p, f)],
      cost = cost ts + segmentCost N M F (point ts) p\<rparr>"

text \<open>
  Modelled from the spec: one step of the tracer inside the absent \<open>makePlan\<close>, once the
  cancellation check has passed. "Terminate successfully when the current point's
  potential falls below a small threshold"; "interpolate a local direction [...]; advance
  by stepWidth along that direction; resolve which face the new point lies in - same
  face, or across a crossed edge into the adjacent face [...]; append the point to the
  output path"; failure when "the crossed edge has no neighboring face (off-mesh), or the
  same face is revisited without net progress (cycle guard)", the latter read as: the
  face entered holds an earlier point of the path whose potential is not above the new
  point's.
\<close>

definition trace_iter ::
  "numerics \<Rightarrow> mesh_model \<Rightarrow> field_maps \<Rightarrow> real \<Rightarrow> tracer_state \<Rightarrow> tracing" where
  "trace_iter N M F w ts =
     (if potentialAt N M F (inFace ts) (point ts) < goalThreshold N then Stopped Success ts
      else
        let d = interpolate N M F (inFace ts) (point ts);
            p = advance N (point ts) d w
        in case crossedEdge N M (inFace ts) p of
             None \<Rightarrow> Walking (visit N M F p (inFace ts) ts)
           | Some e \<Rightarrow>
               (case neighborFaceAcrossEdge M (inFace ts) e of
                  None \<Rightarrow> Stopped OffMesh ts
                | Some f \<Rightarrow>
                    if list_ex (\<lambda>(q, g). g = f \<and> potentialAt N M F g q \<le> potentialAt N M F f p)
                         (path ts)
                    then Stopped Divergence ts
                    else Walking (visit N M F p f ts)))"

text \<open>
  Modelled from the spec: the tracer's loop inside the absent \<open>makePlan\<close>. The token is
  read once per iteration, as in the propagation loop; "step/iteration budget exceeded
  (divergence guard)" ends the loop when the remaining budget \<open>n\<close> is used up.
\<close>

fun trace_loop ::
  "numerics \<Rightarrow> mesh_model \<Rightarrow> field_maps \<Rightarrow> real \<Rightarrow> (nat \<Rightarrow> bool) \<Rightarrow> nat \<Rightarrow> nat \<Rightarrow> tracer_state \<Rightarrow>
   outcome \<times> nat \<times> tracer_state" where
  "trace_loop N M F w tok i 0 ts = (Divergence, i, ts)"
| "trace_loop N M F w tok i (Suc n) ts =
     (if tok i then (Cancelled, Suc i, ts)
      else
        case trace_iter N M F w ts of
          Walking ts' \<Rightarrow> trace_loop N M F w tok (Suc i) n ts'
        | Stopped oc ts' \<Rightarrow> (oc, Suc i, ts'))"

text \<open>
  Modelled from the spec: the tracer inside the absent \<open>makePlan\<close>. "trace(startPoint,
  startFace, vectorField, stepWidth) -> (path, cost, outcome)"; \<open>i\<close> is the number of
  token reads made before.
\<close>

definition trace ::
  "numerics \<Rightarrow> mesh_model \<Rightarrow> field_maps \<Rightarrow> vec \<Rightarrow> face \<Rightarrow> real \<Rightarrow> (nat \<Rightarrow> bool) \<Rightarrow> nat \<Rightarrow>
   outcome \<times> nat \<times> tracer_state" where
  "trace N M F start sf w tok i =
     trace_loop N M F w tok i (stepBudget N)
       \<lparr>point = start, inFace = sf, path = [(start, sf)], cost = 0\<rparr>"

subsection \<open>The request\<close>

text \<open>
  Modelled from the spec: the result of the absent \<open>makePlan\<close>. "Result{outcome, path:
  ordered sequence of points, cost: float, message: string}"; the message is left out.
\<close>

record plan_result =
  outcome :: outcome
  planPath :: "vec list"
  planCost :: real

definition failed :: "outcome \<Rightarrow> plan_result" where
  "failed oc = \<lparr>outcome = oc, planPath = [], planCost = 0\<rparr>"

text \<open>
  Modelled from the spec: the input check of the absent \<open>makePlan\<close>. "InvalidInput -
  negative weights, unlocatable start/goal, empty mesh." The edges are those of the
  faces.
\<close>

definition edges :: "mesh_model \<Rightarrow> (vertex \<times> vertex) list" where
  "edges M =
     concat (map (\<lambda>f. case verticesOfFace M f of (a, b, c) \<Rightarrow> [(a, b), (b, c), (c, a)])
               [0 ..< faceCount M])"

definition invalid_input :: "mesh_model \<Rightarrow> vec \<Rightarrow> vec \<Rightarrow> bool" where
  "invalid_input M start goal =
     (vertexCount M = 0 \<or> faceCount M = 0
      \<or> list_ex (\<lambda>e. edgeWeight M e < 0) (edges M)
      \<or> locate M start = None \<or> locate M goal = None)"

text \<open>
  Modelled from the spec: \<open>makePlan\<close>, declared in the header without a body.
  "plan(startPoint, goalPoint, costLimit, stepWidth, goalOffset, cancelToken) ->
  Result"; invalid input is "surfaced immediately; no computation attempted"; the data
  flow is "WavefrontSolver -> (potential, predecessor, cuttingFace, angle) ->
  VectorFieldBuilder -> vectorField -> PathIntegrator -> path + cost", the wave starting
  at the goal and stopping at the start. \<open>F\<close> holds the maps a previous request left in
  the planner's members; the second component of the result is what they hold
  afterwards.
\<close>

definition plan ::
  "numerics \<Rightarrow> mesh_model \<Rightarrow> vec \<Rightarrow> vec \<Rightarrow> config \<Rightarrow> (nat \<Rightarrow> bool) \<Rightarrow> field_maps \<Rightarrow>
   (plan_result \<times> field_maps) option" where
  "plan N M start goal cfg tok F =
     (if invalid_input M start goal then Some (failed InvalidInput, F)
      else
        case locate M start of
          None \<Rightarrow> Some (failed InvalidInput, F)
        | Some sf \<Rightarrow>
            (case propagate N M (seedVertices M (nearestVertex N M goal)) goal (costLimit cfg)
                    start (goalOffset cfg) tok of
               None \<Rightarrow> None
             | Some (oc, i, st) \<Rightarrow>
                 if oc = Success then
                   (let F' = build N M st in
                    case trace N M F' start sf (stepWidth cfg) tok i of
                      (oc', j, ts) \<Rightarrow>
                        Some (\<lparr>outcome = oc', planPath = map fst (path ts), planCost = cost ts\<rparr>, F'))
                 else Some (failed oc, maps st)))"

text \<open>
  The state after \<open>k\<close> iterations that ran to their end without finishing the loop, for
  the propagation and for the tracer: \<open>None\<close> when the loop ends earlier.
\<close>

fun solver_steps ::
  "numerics \<Rightarrow> mesh_model \<Rightarrow> real \<Rightarrow> vertex \<Rightarrow> real \<Rightarrow> nat \<Rightarrow> solver_state \<Rightarrow> solver_state option" where
  "solver_steps N M limit sv bound 0 st = Some st"
| "solver_steps N M limit sv bound (Suc k) st =
     (if frontier st = [] then None
      else
        case solver_iter N M limit sv bound st of
          Continue st' \<Rightarrow> solver_steps N M limit sv bound k st'
        | Finish oc st' \<Rightarrow> None
        | Abort \<Rightarrow> None)"

fun trace_steps ::
  "numerics \<Rightarrow> mesh_model \<Rightarrow> field_maps \<Rightarrow> real \<Rightarrow> nat \<Rightarrow> tracer_state \<Rightarrow> tracer_state option" where
  "trace_steps N M F w 0 ts = Some ts"
| "trace_steps N M F w (Suc k) ts =
     (case trace_iter N M F w ts of
        Walking ts' \<Rightarrow> trace_steps N M F w k ts'
      | Stopped oc ts' \<Rightarrow> None)"

subsection \<open>A single triangle\<close>

text \<open>
  A mesh of one triangle with vertices 0, 1, 2 at \<open>(0,0,0)\<close>, \<open>(1,0,0)\<close>, \<open>(0,1,0)\<close> and
  the same weight \<open>w\<close> on every edge, a relaxation rule that relaxes along the edge from
  \<open>v1\<close>, and simple stand-ins for the geometric steps. The request below plans from vertex 0
  to vertex 1.
\<close>

definition triangle :: "real \<Rightarrow> mesh_model" where
  "triangle w =
     \<lparr>vertexCount = 3, faceCount = 1, verticesOfFace = (\<lambda>_. (0, 1, 2)),
      facesOfVertex = (\<lambda>_. [0]), neighborFaceAcrossEdge = (\<lambda>_ _. None),
      position = (\<lambda>v. if v = 0 then (0, 0, 0) else if v = 1 then (1, 0, 0) else (0, 1, 0)),
      edgeWeight = (\<lambda>_. w), vertexCost = (\<lambda>_. 0), locate = (\<lambda>_. Some 0)\<rparr>"

definition edge_relax ::
  "mesh_model \<Rightarrow> real \<Rightarrow> field_maps \<Rightarrow> face \<Rightarrow> vertex \<Rightarrow> vertex \<Rightarrow> vertex \<Rightarrow> field_maps \<times> bool" where
  "edge_relax M limit F f v1 v2 v3 =
     (case potential F v1 of
        None \<Rightarrow> (F, False)
      | Some u \<Rightarrow>
          let c = u + edgeWeight M (v1, v3)
          in if (case potential F v3 of None \<Rightarrow> True | Some u3 \<Rightarrow> c < u3)
             then (F\<lparr>potential := (potential F)(v3 := Some c),
                     predecessor := (predecessor F)(v3 := Some v1)\<rparr>, True)
             else (F, False))"

definition simple :: numerics where
  "simple =
     \<lparr>relax = edge_relax,
      distance = (\<lambda>(x, y, z) (x', y', z'). \<bar>x - x'\<bar> + \<bar>y - y'\<bar> + \<bar>z - z'\<bar>),
      nearestVertex = (\<lambda>M (x, y, z). if 1 \<le> 2 * x then 1 else if 1 \<le> 2 * y then 2 else 0),
      rotated = (\<lambda>M F v p. (0, 0, 0)),
      interpolate = (\<lambda>M F f p. (1, 0, 0)),
      advance = (\<lambda>(x, y, z) (dx, dy, dz) w. (x + w * dx, y + w * dy, z + w * dz)),
      crossedEdge = (\<lambda>M f p. None),
      potentialAt = (\<lambda>M F f (x, y, z). \<bar>1 - x\<bar>),
      segmentCost = (\<lambda>M F (x, y, z) (x', y', z'). \<bar>x' - x\<bar>),
      goalThreshold = 1 / 10,
      stepBudget = 10\<rparr>"

definition request :: config where
  "request = \<lparr>costLimit = 1, stepWidth = 1 / 2, goalOffset = 3 / 10\<rparr>"

text \<open>A token that is seen set at read \<open>k\<close>.\<close>

definition cancel_at :: "nat \<Rightarrow> nat \<Rightarrow> bool" where
  "cancel_at k i = (i = k)"

text \<open>
  The solver's state on the triangle with unit weights: after seeding, after the first
  pop, and when the frontier has emptied; and the tracer's state at the start and after
  one step.
\<close>

definition seeded_triangle :: solver_state where
  "seeded_triangle =
     \<lparr>maps = blank_maps\<lparr>potential := [0 \<mapsto> 1, 1 \<mapsto> 0, 2 \<mapsto> 2]\<rparr>,
      frontier = [(1, 0), (0, 1), (2, 2)], settled = (\<lambda>_. False)\<rparr>"

definition after_first_pop :: solver_state where
  "after_first_pop =
     \<lparr>maps = blank_maps\<lparr>potential := [0 \<mapsto> 1, 1 \<mapsto> 0, 2 \<mapsto> 1], predecessor := [2 \<mapsto> 1]\<rparr>,
      frontier = [(0, 1), (2, 1), (2, 2)], settled = (\<lambda>_. False)(1 := True)\<rparr>"

definition propagated_triangle :: solver_state where
  "propagated_triangle =
     \<lparr>maps = blank_maps\<lparr>potential := [0 \<mapsto> 1, 1 \<mapsto> 0, 2 \<mapsto> 1], predecessor := [2 \<mapsto> 1]\<rparr>,
      frontier = [], settled = (\<lambda>_. False)(1 := True, 0 := True, 2 := True)\<rparr>"

definition tracer_start :: tracer_state where
  "tracer_start = \<lparr>point = (0, 0, 0), inFace = 0, path = [((0, 0, 0), 0)], cost = 0\<rparr>"

definition tracer_after_step :: tracer_state where
  "tracer_after_step =
     \<lparr>point = (1 / 2, 0, 0), inFace = 0, path = [((0, 0, 0), 0), ((1 / 2, 0, 0), 0)],
      cost = 1 / 2\<rparr>"

section \<open>Properties of the parser\<close>

lemma ulong_offsets_unfold:
  "ulong_offsets off = [off, off+1, off+2, off+3, off+4, off+5, off+6, off+7]"
  unfolding ulong_offsets_def by (simp add: upt_rec)

lemma parse_short: "length s < 10 \<Longrightarrow> parseByteDataString s b out = (False, out)"
  by (simp add: parseByteDataString_def)

lemma parse_long: "10 \<le> length s \<Longrightarrow> fst (parseByteDataString s b out)"
  by (simp add: parseByteDataString_def Let_def)

lemma parse_False_short: "parseByteDataString s b out = (False, h) \<Longrightarrow> length s < 10"
  by (simp add: parseByteDataString_def Let_def split: if_splits)

lemma set_decoded_offsets: "set decoded_offsets = {..<17}"
  by (auto simp: decoded_offsets_def ulong_offsets_def)

lemma parse_uint_response:
  "parseByteDataString (uint_response u) b out =
     (True, \<lparr>h_type = u, h_size = 1, h_width = 1, h_data = 17\<rparr>)"
  by (simp add: uint_response_def parseByteDataString_def Let_def read_ulong_def
        ulong_offsets_unfold ulong_of_bytes_def c_str_def)

text \<open>
  C8. The parser rejects every string shorter than 10 bytes, but a string of exactly 10
  bytes is accepted although the header it decodes is 17 bytes long: on ten zero bytes the
  call returns true, offset 16 is among the offsets it dereferences and lies outside the
  string, and the decoded width is whatever the memory behind the string holds (0 when
  that memory is zero, \<open>0x0101010101010000\<close> when it is all ones).
\<close>

theorem parseByteDataString_ten_bytes:
  "fst (parseByteDataString (replicate 10 0) b out)
   \<and> 16 \<in> set decoded_offsets
   \<and> \<not> 16 < length (replicate 10 (0::byte))
   \<and> h_width (snd (parseByteDataString (replicate 10 0) (\<lambda>_. 0) out)) = 0
   \<and> h_width (snd (parseByteDataString (replicate 10 0) (\<lambda>_. 1) out)) = 0x0101010101010000"
  by (simp add: parseByteDataString_def Let_def read_ulong_def decoded_offsets_def
        ulong_offsets_unfold ulong_of_bytes_def c_str_def)

section \<open>Properties of the client\<close>

lemma getChannel_index_uncached:
  "index_channels st name = None \<Longrightarrow>
   getChannel_index e st grp name ch
     = (Inr False, ch, st\<lparr>requests := requests st @ [name]\<rparr>)"
  by (auto simp: getChannel_index_def requestChannel_def Let_def
        split: option.splits prod.splits dest: parse_False_short)

lemma getChannel_index_cached:
  "index_channels st name = Some c \<Longrightarrow> getChannel_index e st grp name ch = (Inr True, Some c, st)"
  by (simp add: getChannel_index_def)

text \<open>
  The branch of the \<open>IndexChannelOptional\<close> overload that builds a channel from a
  response cannot run, because the parser's result is negated: on a client with an empty
  cache and a server that answers with a well-formed response whose type byte is
  \<open>Type::UINT\<close>, the overload returns false and leaves the output channel as it was, while
  \<open>getIndices\<close> loads the channel from the very same response.
\<close>

lemma getChannel_index_dead_branch:
  "getChannel_index
      \<lparr>server = (\<lambda>_. Some (uint_response u)), beyond = b, uninit = un,
       FLOAT = f, UINT = u, sizeof_Index = 4, operator_new = (\<lambda>_. None)\<rparr>
      fresh_client grp name ch
     = (Inr False, ch, fresh_client\<lparr>requests := [name]\<rparr>)
   \<and> getIndices
      \<lparr>server = (\<lambda>_. Some (uint_response u)), beyond = b, uninit = un,
       FLOAT = f, UINT = u, sizeof_Index = 4, operator_new = (\<lambda>_. None)\<rparr>
      fresh_client
     = (Inr (Some \<lparr>numElements = 1, width = 1, dataPtr = [42,0,0,0]\<rparr>),
        fresh_client\<lparr>requests := [''face_indices'']\<rparr>)"
  apply (simp add: getChannel_index_def getIndices_def requestChannel_def fresh_client_def
      parse_uint_response load_channel_def)
  apply (simp add: uint_response_def c_str_def upt_rec)
  done

text \<open>
  C9. The \<open>IndexChannelOptional\<close> overload of \<open>getChannel\<close> returns true with data of a
  response in the output channel only when the response parses and its type byte is
  \<open>Type::UINT\<close>. Stated for a name that is not cached and a server that answers \<open>s\<close>: if
  \<open>s\<close> does not both parse and carry the type byte \<open>Type::UINT\<close>, the call returns false
  and leaves the output channel as it was; in particular it does so for every \<open>s\<close> that
  fails to parse. Stated for any call: a call that returns true was either served from the
  cache or got a response that parses with the type byte \<open>Type::UINT\<close>.
\<close>

theorem getChannel_index_only_when_parsed:
  "(index_channels st name = None \<and> server e name = Some s
      \<and> \<not> (fst (parseByteDataString s (beyond e) (uninit e))
           \<and> h_type (snd (parseByteDataString s (beyond e) (uninit e))) = UINT e)
    \<longrightarrow> getChannel_index e st grp name ch
          = (Inr False, ch, st\<lparr>requests := requests st @ [name]\<rparr>))
 \<and> (index_channels st name = None \<and> server e name = Some s
      \<and> \<not> fst (parseByteDataString s (beyond e) (uninit e))
    \<longrightarrow> getChannel_index e st grp name ch
          = (Inr False, ch, st\<lparr>requests := requests st @ [name]\<rparr>))
 \<and> (fst (getChannel_index e st grp name ch) = Inr True
    \<longrightarrow> (\<exists>c. index_channels st name = Some c)
        \<or> (\<exists>r. server e name = Some r
               \<and> fst (parseByteDataString r (beyond e) (uninit e))
               \<and> h_type (snd (parseByteDataString r (beyond e) (uninit e))) = UINT e))"
proof -
  have "fst (getChannel_index e st grp name ch) = Inr True \<Longrightarrow> \<exists>c. index_channels st name = Some c"
    using getChannel_index_uncached[of st name e grp ch] by (cases "index_channels st name") auto
  then show ?thesis
    using getChannel_index_uncached[of st name e grp ch] by blast
qed

theorem getChannel_index_only_when_parsed_witness:
  "getChannel_index float_server fresh_client ''mesh'' ''roughness'' None
     = (Inr False, None, fresh_client\<lparr>requests := [''roughness'']\<rparr>)
 \<and> getChannel_index short_server fresh_client ''mesh'' ''roughness'' None
     = (Inr False, None, fresh_client\<lparr>requests := [''roughness'']\<rparr>)
 \<and> getChannel_index float_server (snd (addChannel_index fresh_client ''mesh'' ''roughness'' one_index))
       ''mesh'' ''roughness'' None
     = (Inr True, Some one_index, snd (addChannel_index fresh_client ''mesh'' ''roughness'' one_index))"
proof -
  have uncached: "index_channels fresh_client ''roughness'' = None"
    by (simp add: fresh_client_def)
  have log: "fresh_client\<lparr>requests := requests fresh_client @ [''roughness'']\<rparr>
      = fresh_client\<lparr>requests := [''roughness'']\<rparr>"
    by (simp add: fresh_client_def)
  have answer1: "server float_server ''roughness'' = Some (uint_response 1)"
    by (simp add: float_server_def)
  have parsed1: "parseByteDataString (uint_response 1) (beyond float_server) (uninit float_server)
      = (True, \<lparr>h_type = 1, h_size = 1, h_width = 1, h_data = 17\<rparr>)"
    by (rule parse_uint_response)
  have not_uint: "\<not> (fst (parseByteDataString (uint_response 1) (beyond float_server)
                          (uninit float_server))
        \<and> h_type (snd (parseByteDataString (uint_response 1) (beyond float_server)
                          (uninit float_server))) = UINT float_server)"
    unfolding parsed1 by (simp add: float_server_def)
  have a: "getChannel_index float_server fresh_client ''mesh'' ''roughness'' None
     = (Inr False, None, fresh_client\<lparr>requests := requests fresh_client @ [''roughness'']\<rparr>)"
    using getChannel_index_only_when_parsed[where e = float_server and st = fresh_client
        and name = "''roughness''" and s = "uint_response 1" and grp = "''mesh''" and ch = None]
      uncached answer1 not_uint
    by blast
  have answer2: "server short_server ''roughness'' = Some [1, 2, 3]"
    by (simp add: short_server_def)
  have not_parsed: "\<not> fst (parseByteDataString [1, 2, 3] (beyond short_server)
                           (uninit short_server))"
    by (simp add: parseByteDataString_def)
  have b: "getChannel_index short_server fresh_client ''mesh'' ''roughness'' None
     = (Inr False, None, fresh_client\<lparr>requests := requests fresh_client @ [''roughness'']\<rparr>)"
    using getChannel_index_only_when_parsed[where e = short_server and st = fresh_client
        and name = "''roughness''" and s = "[1, 2, 3]" and grp = "''mesh''" and ch = None]
      uncached answer2 not_parsed
    by blast
  have c: "getChannel_index float_server
       (snd (addChannel_index fresh_client ''mesh'' ''roughness'' one_index))
       ''mesh'' ''roughness'' None
     = (Inr True, Some one_index, snd (addChannel_index fresh_client ''mesh'' ''roughness'' one_index))"
    by (rule getChannel_index_cached) (simp add: addChannel_index_def)
  from a b c show ?thesis unfolding log by blast
qed

text \<open>
  C10. Storing then fetching goes through the cache: after \<open>addVertices\<close>, \<open>addIndices\<close>
  or \<open>addChannel\<close>, the matching \<open>getVertices\<close>, \<open>getIndices\<close> or \<open>getChannel\<close> with the same
  name returns exactly the stored channel and leaves the client, its request log
  included, as the store left it; the store itself issues no request; and neither the
  store nor the lookup depends on the group argument.
\<close>

theorem cache_round_trip:
  "getVertices e (snd (addVertices st c)) = (Inr (Some c), snd (addVertices st c))
 \<and> getIndices e (snd (addIndices st c)) = (Inr (Some c), snd (addIndices st c))
 \<and> getChannel_float e (snd (addChannel_float st g name c)) g' name ch
      = (Inr True, Some c, snd (addChannel_float st g name c))
 \<and> getChannel_index e (snd (addChannel_index st g name c)) g' name ch
      = (Inr True, Some c, snd (addChannel_index st g name c))
 \<and> getChannel_uchar e (snd (addChannel_uchar st g name c)) g' name ch
      = (Inr True, Some c, snd (addChannel_uchar st g name c))
 \<and> getChannel_float e (snd (addVertices st c)) g' ''vertices'' ch
      = (Inr True, Some c, snd (addVertices st c))
 \<and> getChannel_index e (snd (addIndices st c)) g' ''face_indices'' ch
      = (Inr True, Some c, snd (addIndices st c))
 \<and> getVertices e (snd (addChannel_float st g ''vertices'' c))
      = (Inr (Some c), snd (addChannel_float st g ''vertices'' c))
 \<and> getIndices e (snd (addChannel_index st g ''face_indices'' c))
      = (Inr (Some c), snd (addChannel_index st g ''face_indices'' c))
 \<and> requests (snd (addVertices st c)) = requests st
 \<and> requests (snd (addIndices st c)) = requests st
 \<and> requests (snd (addChannel_float st g name c)) = requests st
 \<and> requests (snd (addChannel_index st g name c)) = requests st
 \<and> requests (snd (addChannel_uchar st g name c)) = requests st
 \<and> addChannel_float st g name c = addChannel_float st g' name c
 \<and> addChannel_index st g name c = addChannel_index st g' name c
 \<and> addChannel_uchar st g name c = addChannel_uchar st g' name c
 \<and> getChannel_float e st g name ch = getChannel_float e st g' name ch
 \<and> getChannel_index e st g name ch = getChannel_index e st g' name ch
 \<and> getChannel_uchar e st g name ch = getChannel_uchar e st g' name ch"
  by (simp add: getVertices_def getIndices_def getChannel_float_def getChannel_index_def
        getChannel_uchar_def addVertices_def addIndices_def addChannel_float_def
        addChannel_index_def addChannel_uchar_def)

section \<open>Properties of the planning core\<close>

subsection \<open>Cancellation\<close>

lemma propagate_loop_cancel_after:
  assumes "solver_steps N M limit sv bound k st = Some st'" "frontier st' \<noteq> []"
    "\<forall>j<k. \<not> tok (i + j)" "tok (i + k)"
  shows "propagate_loop N M limit sv bound tok i st = Some (Cancelled, Suc (i + k), st')"
  using assms
proof (induction k arbitrary: i st)
  case 0
  then show ?case by (subst propagate_loop.simps) simp
next
  case (Suc k)
  from Suc.prems(1) have ne: "frontier st \<noteq> []" by (auto split: if_splits)
  from Suc.prems(1) ne obtain st1 where it: "solver_iter N M limit sv bound st = Continue st1"
    and rest: "solver_steps N M limit sv bound k st1 = Some st'"
    by (auto split: iteration.splits)
  from Suc.prems(3) have nt: "\<not> tok i" by (metis add.right_neutral zero_less_Suc)
  have "\<forall>j<k. \<not> tok (Suc i + j)" using Suc.prems(3) by (metis add_Suc_shift Suc_less_eq)
  moreover have "tok (Suc i + k)" using Suc.prems(4) by simp
  ultimately have "propagate_loop N M limit sv bound tok (Suc i) st1
      = Some (Cancelled, Suc (Suc i + k), st')"
    using Suc.IH[OF rest Suc.prems(2)] by blast
  with ne nt it show ?case by (subst propagate_loop.simps) simp
qed

lemma trace_loop_cancel_after:
  assumes "trace_steps N M F w k ts = Some ts'" "\<forall>j<k. \<not> tok (i + j)" "tok (i + k)" "k < n"
  shows "trace_loop N M F w tok i n ts = (Cancelled, Suc (i + k), ts')"
  using assms
proof (induction k arbitrary: i ts n)
  case 0
  then obtain m where "n = Suc m" by (cases n) auto
  with 0 show ?case by simp
next
  case (Suc k)
  from Suc.prems(4) obtain m where n: "n = Suc m" and km: "k < m" by (cases n) auto
  from Suc.prems(1) obtain ts1 where it: "trace_iter N M F w ts = Walking ts1"
    and rest: "trace_steps N M F w k ts1 = Some ts'"
    by (auto split: tracing.splits)
  from Suc.prems(2) have nt: "\<not> tok i" by (metis add.right_neutral zero_less_Suc)
  have "\<forall>j<k. \<not> tok (Suc i + j)" using Suc.prems(2) by (metis add_Suc_shift Suc_less_eq)
  moreover have "tok (Suc i + k)" using Suc.prems(3) by simp
  ultimately have "trace_loop N M F w tok (Suc i) m ts1 = (Cancelled, Suc (Suc i + k), ts')"
    using Suc.IH[OF rest _ _ km] by blast
  with n nt it show ?case by simp
qed

lemma plan_cancelled_in_propagation:
  assumes "\<not> invalid_input M start goal"
    "propagate N M (seedVertices M (nearestVertex N M goal)) goal (costLimit cfg)
       start (goalOffset cfg) tok = Some (Cancelled, i, st)"
  shows "plan N M start goal cfg tok F = Some (failed Cancelled, maps st)"
proof -
  from assms(1) obtain sf where "locate M start = Some sf"
    by (auto simp: invalid_input_def)
  with assms show ?thesis by (simp add: plan_def)
qed

lemma plan_cancelled_in_tracing:
  assumes "\<not> invalid_input M start goal" "locate M start = Some sf"
    "propagate N M (seedVertices M (nearestVertex N M goal)) goal (costLimit cfg)
       start (goalOffset cfg) tok = Some (Success, r, pst)"
    "trace N M (build N M pst) start sf (stepWidth cfg) tok r = (Cancelled, r', tst)"
  shows "plan N M start goal cfg tok F =
     Some (\<lparr>outcome = Cancelled, planPath = map fst (path tst), planCost = cost tst\<rparr>,
           build N M pst)"
  using assms by (simp add: plan_def Let_def)

subsection \<open>Outcomes\<close>

lemma solver_iter_Finish: "solver_iter N M limit sv bound st = Finish oc st' \<Longrightarrow> oc = Success"
  by (auto simp: solver_iter_def Let_def split: list.splits if_splits)

lemma trace_iter_Stopped:
  "trace_iter N M F w ts = Stopped oc ts' \<Longrightarrow> oc \<noteq> InvalidInput"
  by (auto simp: trace_iter_def Let_def split: if_splits option.splits)

lemma propagate_loop_outcome:
  "propagate_loop N M limit sv bound tok i st = Some (oc, j, st') \<Longrightarrow> oc \<noteq> InvalidInput"
proof (induction N M limit sv bound tok i st rule: propagate_loop.induct)
  case (1 N M limit sv bound tok i st)
  show ?case
  proof (cases "frontier st = [] \<or> tok i")
    case True
    with "1.prems" show ?thesis
      by (subst (asm) propagate_loop.simps) (auto split: if_splits)
  next
    case False
    then have ne: "frontier st \<noteq> []" and nt: "\<not> tok i" by auto
    from "1.prems" ne nt have unf:
      "(case solver_iter N M limit sv bound st of
          Continue st1 \<Rightarrow> propagate_loop N M limit sv bound tok (Suc i) st1
        | Finish oc1 st1 \<Rightarrow> Some (oc1, Suc i, st1)
        | Abort \<Rightarrow> None) = Some (oc, j, st')"
      by (subst (asm) propagate_loop.simps) simp
    show ?thesis
    proof (cases "solver_iter N M limit sv bound st")
      case (Continue st1)
      with unf have "propagate_loop N M limit sv bound tok (Suc i) st1 = Some (oc, j, st')"
        by simp
      with "1.IH"[OF ne nt Continue] show ?thesis .
    next
      case (Finish oc1 st1)
      with unf solver_iter_Finish[OF Finish] show ?thesis by auto
    next
      case Abort
      with unf show ?thesis by simp
    qed
  qed
qed

lemma trace_loop_outcome:
  "trace_loop N M F w tok i n ts = (oc, j, ts') \<Longrightarrow> oc \<noteq> InvalidInput"
proof (induction n arbitrary: i ts)
  case 0
  then show ?case by auto
next
  case (Suc n)
  show ?case
  proof (cases "tok i")
    case True
    with Suc.prems show ?thesis by auto
  next
    case False
    show ?thesis
    proof (cases "trace_iter N M F w ts")
      case (Walking ts1)
      with Suc.prems False have "trace_loop N M F w tok (Suc i) n ts1 = (oc, j, ts')" by simp
      then show ?thesis by (rule Suc.IH)
    next
      case (Stopped oc1 ts1)
      with Suc.prems False trace_iter_Stopped[OF Stopped] show ?thesis by auto
    qed
  qed
qed

lemma plan_outcome:
  assumes "\<not> invalid_input M start goal"
  shows "case plan N M start goal cfg tok F of
           None \<Rightarrow> True | Some (res, F') \<Rightarrow> outcome res \<noteq> InvalidInput"
proof -
  from assms obtain sf where sf: "locate M start = Some sf"
    by (auto simp: invalid_input_def)
  show ?thesis
  proof (cases "propagate N M (seedVertices M (nearestVertex N M goal)) goal (costLimit cfg)
                  start (goalOffset cfg) tok")
    case None
    with assms sf show ?thesis by (simp add: plan_def)
  next
    case (Some res)
    obtain oc i st where res: "res = (oc, i, st)" by (cases res)
    from Some res have "oc \<noteq> InvalidInput"
      unfolding propagate_def by (auto dest: propagate_loop_outcome)
    moreover obtain oc' j ts where tr:
      "trace N M (build N M st) start sf (stepWidth cfg) tok i = (oc', j, ts)"
      by (cases "trace N M (build N M st) start sf (stepWidth cfg) tok i")
    then have "oc' \<noteq> InvalidInput"
      unfolding trace_def by (auto dest: trace_loop_outcome)
    ultimately show ?thesis
      using assms sf Some res tr by (simp add: plan_def failed_def Let_def)
  qed
qed

lemma plan_negative_weight:
  "list_ex (\<lambda>e. edgeWeight M e < 0) (edges M) \<Longrightarrow>
   plan N M start goal cfg tok F = Some (failed InvalidInput, F)"
  by (simp add: plan_def invalid_input_def)

lemma nonnegative_weights_valid:
  assumes "list_all (\<lambda>e. 0 \<le> edgeWeight M e) (edges M)"
    "vertexCount M \<noteq> 0" "faceCount M \<noteq> 0" "locate M start \<noteq> None" "locate M goal \<noteq> None"
  shows "\<not> invalid_input M start goal"
  using assms by (auto simp: invalid_input_def list_all_iff list_ex_iff not_less[symmetric])

subsection \<open>The single triangle, evaluated\<close>

lemma seeds_triangle: "seedVertices (triangle w) 1 = [0, 1, 2]"
  by (simp add: seedVertices_def triangle_def)

lemma candidates_triangle:
  "candidates (triangle w) 0 = [(0, 0, 1, 2), (0, 0, 2, 1)]"
  "candidates (triangle w) 1 = [(0, 1, 2, 0), (0, 1, 0, 2)]"
  "candidates (triangle w) 2 = [(0, 2, 0, 1), (0, 2, 1, 0)]"
  by (simp_all add: candidates_def triangle_def)

lemma simple_sel:
  "relax simple = edge_relax"
  "distance simple (x, y, z) (x', y', z') = \<bar>x - x'\<bar> + \<bar>y - y'\<bar> + \<bar>z - z'\<bar>"
  "nearestVertex simple M (x, y, z) = (if 1 \<le> 2 * x then 1 else if 1 \<le> 2 * y then 2 else 0)"
  "interpolate simple M F f p = (1, 0, 0)"
  "advance simple (x, y, z) (dx, dy, dz) w = (x + w * dx, y + w * dy, z + w * dz)"
  "crossedEdge simple M f p = None"
  "potentialAt simple M F f (x, y, z) = \<bar>1 - x\<bar>"
  "segmentCost simple M F (x, y, z) (x', y', z') = \<bar>x' - x\<bar>"
  "goalThreshold simple = 1 / 10"
  "stepBudget simple = 10"
  by (simp_all add: simple_def)

lemma triangle_sel:
  "vertexCount (triangle w) = 3" "faceCount (triangle w) = 1"
  "verticesOfFace (triangle w) f = (0, 1, 2)" "facesOfVertex (triangle w) v = [0]"
  "position (triangle w) v = (if v = 0 then (0, 0, 0) else if v = 1 then (1, 0, 0) else (0, 1, 0))"
  "edgeWeight (triangle w) e = w" "locate (triangle w) p = Some 0"
  by (simp_all add: triangle_def)

lemmas triangle_eval =
  candidates_triangle simple_sel triangle_sel edge_relax_def blank_maps_def Let_def
  solver_iter_def seeded_triangle_def

lemma ten: "(10::nat) = Suc (Suc (Suc (Suc (Suc (Suc (Suc (Suc (Suc (Suc 0)))))))))"
  by simp

lemma seeded_triangle_eq:
  "seeded simple (triangle w) (1, 0, 0) (seedVertices (triangle w) 1) = seeded_triangle"
  by (simp add: seeds_triangle seeded_def seed_vertex_def triangle_eval del: One_nat_def)

lemma first_pop:
  "solver_steps simple (triangle 1) 1 0 (13 / 10) 1 seeded_triangle = Some after_first_pop"
proof -
  have "solver_steps simple (triangle 1) 1 0 (13 / 10) (Suc 0) seeded_triangle
      = Some after_first_pop"
    by (simp add: triangle_eval after_first_pop_def del: One_nat_def)
  then show ?thesis by simp
qed

lemma propagate_loop_triangle:
  assumes "4 \<le> k"
  shows "propagate_loop simple (triangle 1) 1 0 (13 / 10) (cancel_at k) 0 seeded_triangle
     = Some (Success, 4, propagated_triangle)"
proof -
  from assms have k: "k \<noteq> 0" "k \<noteq> Suc 0" "k \<noteq> Suc (Suc 0)" "k \<noteq> Suc (Suc (Suc 0))"
    by auto
  have "propagate_loop simple (triangle 1) 1 0 (13 / 10) (cancel_at k) 0 seeded_triangle
     = Some (Success, Suc (Suc (Suc (Suc 0))), propagated_triangle)"
    using k
    by (simp add: propagate_loop.simps triangle_eval propagated_triangle_def cancel_at_def
          eq_commute[of _ k] del: One_nat_def)
  then show ?thesis by (simp add: numeral_eq_Suc)
qed

lemma first_step:
  "trace_steps simple (triangle 1) F (1 / 2) 1 tracer_start = Some tracer_after_step"
proof -
  have "trace_steps simple (triangle 1) F (1 / 2) (Suc 0) tracer_start = Some tracer_after_step"
    by (simp add: trace_iter_def visit_def simple_sel tracer_start_def tracer_after_step_def
          Let_def)
  then show ?thesis by simp
qed

lemma triangle_valid: "0 \<le> w \<Longrightarrow> \<not> invalid_input (triangle w) s g"
  by (simp add: invalid_input_def edges_def triangle_sel)

lemma propagate_cancelled_triangle:
  "propagate simple (triangle 1)
     (seedVertices (triangle 1) (nearestVertex simple (triangle 1) (1, 0, 0)))
     (1, 0, 0) (costLimit request) (0, 0, 0) (goalOffset request) (cancel_at 1)
   = Some (Cancelled, 2, after_first_pop)"
proof -
  have "propagate_loop simple (triangle 1) 1 0 (13 / 10) (cancel_at 1) 0 seeded_triangle
      = Some (Cancelled, Suc (0 + 1), after_first_pop)"
    by (rule propagate_loop_cancel_after[OF first_pop])
       (simp_all add: after_first_pop_def cancel_at_def)
  then show ?thesis
    by (simp add: propagate_def request_def simple_sel seeded_triangle_eq del: One_nat_def)
qed

lemma propagate_success_triangle:
  "4 \<le> k \<Longrightarrow>
   propagate simple (triangle 1)
     (seedVertices (triangle 1) (nearestVertex simple (triangle 1) (1, 0, 0)))
     (1, 0, 0) (costLimit request) (0, 0, 0) (goalOffset request) (cancel_at k)
   = Some (Success, 4, propagated_triangle)"
  using propagate_loop_triangle[of k]
  by (simp add: propagate_def request_def simple_sel seeded_triangle_eq del: One_nat_def)

lemma plan_zero_weights_triangle:
  "map_option (\<lambda>(res, F'). (outcome res, planPath res, planCost res))
     (plan simple (triangle 0) (0, 0, 0) (1, 0, 0) request (\<lambda>_. False) blank_maps)
   = Some (Success, [(0, 0, 0), (1 / 2, 0, 0), (1, 0, 0)], 1)"
  apply (simp add: plan_def triangle_valid triangle_sel propagate_def request_def simple_sel
      seeded_triangle_eq del: One_nat_def)
  apply (simp add: propagate_loop.simps triangle_eval del: One_nat_def)
  apply (simp add: trace_def simple_sel ten trace_iter_def visit_def Let_def build_def)
  done

subsection \<open>The claims on the planning core\<close>

text \<open>
  C4. The cancellation token is read once per iteration of the propagation loop and of
  the tracer's loop. When the read of an iteration sees it set for the first time, after
  \<open>k\<close> iterations that ran to their end, the loop returns the cancelled outcome at once,
  with exactly the state those \<open>k\<close> iterations had produced: nothing is changed after
  the observation. A request whose propagation is cancelled returns the cancelled outcome
  with the potential, predecessor, cutting-face and vector maps as the propagation left
  them (no vector field is built, no path traced); a request cancelled while tracing
  returns the part of the path traced so far and the maps as they were when tracing
  began.
\<close>

theorem cancellation_stops_planning:
  "(solver_steps N M limit sv bound k st = Some st' \<and> frontier st' \<noteq> []
      \<and> (\<forall>j<k. \<not> tok (i + j)) \<and> tok (i + k)
    \<longrightarrow> propagate_loop N M limit sv bound tok i st = Some (Cancelled, Suc (i + k), st'))
 \<and> (trace_steps N M F w k ts = Some ts' \<and> k < n
      \<and> (\<forall>j<k. \<not> tok (i + j)) \<and> tok (i + k)
    \<longrightarrow> trace_loop N M F w tok i n ts = (Cancelled, Suc (i + k), ts'))
 \<and> (\<not> invalid_input M start goal
      \<and> propagate N M (seedVertices M (nearestVertex N M goal)) goal (costLimit cfg)
            start (goalOffset cfg) tok = Some (Cancelled, r, pst)
    \<longrightarrow> plan N M start goal cfg tok F0 = Some (failed Cancelled, maps pst))
 \<and> (\<not> invalid_input M start goal \<and> locate M start = Some sf
      \<and> propagate N M (seedVertices M (nearestVertex N M goal)) goal (costLimit cfg)
            start (goalOffset cfg) tok = Some (Success, r, pst)
      \<and> trace N M (build N M pst) start sf (stepWidth cfg) tok r = (Cancelled, r', tst)
    \<longrightarrow> plan N M start goal cfg tok F0 =
          Some (\<lparr>outcome = Cancelled, planPath = map fst (path tst), planCost = cost tst\<rparr>,
                build N M pst))"
  using propagate_loop_cancel_after[of N M limit sv bound k st st' tok i]
    trace_loop_cancel_after[of N M F w k ts ts' tok i n]
    plan_cancelled_in_propagation[of M start goal N cfg tok r pst F0]
    plan_cancelled_in_tracing[of M start goal sf N cfg tok r pst r' tst F0]
  by blast

theorem cancellation_stops_planning_witness:
  "propagate_loop simple (triangle 1) 1 0 (13 / 10) (cancel_at 1) 0 seeded_triangle
     = Some (Cancelled, 2, after_first_pop)
 \<and> trace_loop simple (triangle 1) (build simple (triangle 1) propagated_triangle) (1 / 2)
       (cancel_at 5) 4 10 tracer_start
     = (Cancelled, 6, tracer_after_step)
 \<and> plan simple (triangle 1) (0, 0, 0) (1, 0, 0) request (cancel_at 1) blank_maps
     = Some (failed Cancelled, maps after_first_pop)
 \<and> plan simple (triangle 1) (0, 0, 0) (1, 0, 0) request (cancel_at 5) blank_maps
     = Some (\<lparr>outcome = Cancelled, planPath = [(0, 0, 0), (1 / 2, 0, 0)], planCost = 1 / 2\<rparr>,
             build simple (triangle 1) propagated_triangle)"
proof -
  have valid: "\<not> invalid_input (triangle 1) (0, 0, 0) (1, 0, 0)"
    by (rule triangle_valid) simp
  have a: "propagate_loop simple (triangle 1) 1 0 (13 / 10) (cancel_at 1) 0 seeded_triangle
      = Some (Cancelled, Suc (0 + 1), after_first_pop)"
    using cancellation_stops_planning[where N = simple and M = "triangle 1" and limit = 1
        and sv = 0 and bound = "13 / 10" and k = 1 and st = seeded_triangle
        and st' = after_first_pop and tok = "cancel_at 1" and i = 0] first_pop
    by (simp add: after_first_pop_def cancel_at_def)
  have b: "trace_loop simple (triangle 1) (build simple (triangle 1) propagated_triangle) (1 / 2)
       (cancel_at 5) 4 10 tracer_start = (Cancelled, Suc (4 + 1), tracer_after_step)"
    using cancellation_stops_planning[where N = simple and M = "triangle 1"
        and F = "build simple (triangle 1) propagated_triangle" and w = "1 / 2" and k = 1
        and ts = tracer_start and ts' = tracer_after_step and n = 10
        and tok = "cancel_at 5" and i = 4] first_step
    by (simp add: cancel_at_def)
  have c: "plan simple (triangle 1) (0, 0, 0) (1, 0, 0) request (cancel_at 1) blank_maps
     = Some (failed Cancelled, maps after_first_pop)"
    using cancellation_stops_planning[where N = simple and M = "triangle 1"
        and start = "(0, 0, 0)" and goal = "(1, 0, 0)" and cfg = request
        and tok = "cancel_at 1" and r = 2 and pst = after_first_pop and ?F0.0 = blank_maps]
      valid propagate_cancelled_triangle
    by blast
  have tr: "trace simple (triangle 1) (build simple (triangle 1) propagated_triangle) (0, 0, 0) 0
       (stepWidth request) (cancel_at 5) 4 = (Cancelled, 6, tracer_after_step)"
    using b by (simp add: trace_def request_def simple_sel tracer_start_def)
  have d: "plan simple (triangle 1) (0, 0, 0) (1, 0, 0) request (cancel_at 5) blank_maps
     = Some (\<lparr>outcome = Cancelled, planPath = map fst (path tracer_after_step),
               planCost = cost tracer_after_step\<rparr>,
             build simple (triangle 1) propagated_triangle)"
    using cancellation_stops_planning[where N = simple and M = "triangle 1"
        and start = "(0, 0, 0)" and goal = "(1, 0, 0)" and cfg = request and sf = 0
        and tok = "cancel_at 5" and r = 4 and pst = propagated_triangle and r' = 6
        and tst = tracer_after_step and ?F0.0 = blank_maps]
      valid propagate_success_triangle[of 5] tr
    by (simp add: triangle_sel)
  from a b c d show ?thesis by (simp add: tracer_after_step_def)
qed

text \<open>
  C7. If an edge of the mesh has a negative weight, the request is answered with
  InvalidInput before anything is computed: whatever the relaxation rule, the token and
  the tunables are, the result has no path and the potential, predecessor, cutting-face
  and vector maps are returned as they were. Weights that are zero or positive never
  make the input invalid: on a non-empty mesh with locatable start and goal the input
  check passes and the request's outcome is not InvalidInput.
\<close>

theorem negative_weights_rejected:
  "(list_ex (\<lambda>e. edgeWeight M e < 0) (edges M)
    \<longrightarrow> plan N M start goal cfg tok F = Some (failed InvalidInput, F))
 \<and> (list_all (\<lambda>e. 0 \<le> edgeWeight M e) (edges M) \<and> vertexCount M \<noteq> 0 \<and> faceCount M \<noteq> 0
      \<and> locate M start \<noteq> None \<and> locate M goal \<noteq> None
    \<longrightarrow> \<not> invalid_input M start goal
        \<and> (case plan N M start goal cfg tok F of
              None \<Rightarrow> True
            | Some (res, F') \<Rightarrow> outcome res \<noteq> InvalidInput))"
  using plan_negative_weight[of M N start goal cfg tok F]
    nonnegative_weights_valid[of M start goal]
    plan_outcome[of M start goal N cfg tok F]
  by blast

theorem negative_weights_rejected_witness:
  "plan simple (triangle (- 1)) (0, 0, 0) (1, 0, 0) request (\<lambda>_. False) blank_maps
     = Some (failed InvalidInput, blank_maps)
 \<and> \<not> invalid_input (triangle 0) (0, 0, 0) (1, 0, 0)
 \<and> map_option (\<lambda>(res, F'). (outcome res, planPath res, planCost res))
      (plan simple (triangle 0) (0, 0, 0) (1, 0, 0) request (\<lambda>_. False) blank_maps)
     = Some (Success, [(0, 0, 0), (1 / 2, 0, 0), (1, 0, 0)], 1)"
proof -
  have "list_ex (\<lambda>e. edgeWeight (triangle (- 1)) e < 0) (edges (triangle (- 1)))"
    by (simp add: edges_def triangle_sel)
  then have a: "plan simple (triangle (- 1)) (0, 0, 0) (1, 0, 0) request (\<lambda>_. False) blank_maps
     = Some (failed InvalidInput, blank_maps)"
    using negative_weights_rejected[where M = "triangle (- 1)" and N = simple
        and start = "(0, 0, 0)" and goal = "(1, 0, 0)" and cfg = request
        and tok = "\<lambda>_. False" and F = blank_maps]
    by blast
  have "list_all (\<lambda>e. 0 \<le> edgeWeight (triangle 0) e) (edges (triangle 0))"
    by (simp add: edges_def triangle_sel)
  then have b: "\<not> invalid_input (triangle 0) (0, 0, 0) (1, 0, 0)"
    using negative_weights_rejected[where M = "triangle 0" and N = simple
        and start = "(0, 0, 0)" and goal = "(1, 0, 0)" and cfg = request
        and tok = "\<lambda>_. False" and F = blank_maps]
    by (simp add: triangle_sel)
  from a b plan_zero_weights_triangle show ?thesis by blast
qed

end
